theory Spec2Isabelle
  imports Complex_Main
begin

section \<open>Numeric values\<close>

text \<open>
  The library computes with Python floats and numpy \<open>float64\<close> values. A value is
  modelled by the real number it stands for, or by one of the three special values of
  IEEE 754: the two infinities and NaN. The range of the 64-bit format is part of the
  model: a result whose magnitude is at least \<open>2^1024 - 2^970\<close> is an infinity, and a
  product, quotient, power or exponential whose magnitude is at most \<open>2^-1075\<close> is
  zero (sums and differences of floats never round to zero). Inside that range a result
  keeps its exact value: the rounding of the 53-bit significand is not modelled, and
  neither is the sign of a zero (every zero divisor that occurs in the code below is a
  product or a difference of non-negative numbers, hence \<open>+0.0\<close>).
\<close>

datatype fl = Fin real | PInf | NInf | NaN

definition max_round :: real where
  "max_round = 2 ^ 1024 - 2 ^ 970"

definition min_round :: real where
  "min_round = 1 / 2 ^ 1075"

definition f64_overflow :: "real \<Rightarrow> fl" where
  "f64_overflow c =
     (if max_round \<le> c then PInf else if c \<le> - max_round then NInf else Fin c)"

definition f64_range :: "real \<Rightarrow> fl" where
  "f64_range c = (if \<bar>c\<bar> \<le> min_round then Fin 0 else f64_overflow c)"


fun fl_neg :: "fl \<Rightarrow> fl" where
  "fl_neg (Fin a) = Fin (- a)"
| "fl_neg PInf = NInf"
| "fl_neg NInf = PInf"
| "fl_neg NaN = NaN"

fun fl_add :: "fl \<Rightarrow> fl \<Rightarrow> fl" where
  "fl_add (Fin a) (Fin b) = f64_overflow (a + b)"
| "fl_add NaN _ = NaN"
| "fl_add _ NaN = NaN"
| "fl_add PInf NInf = NaN"
| "fl_add NInf PInf = NaN"
| "fl_add PInf _ = PInf"
| "fl_add _ PInf = PInf"
| "fl_add NInf _ = NInf"
| "fl_add _ NInf = NInf"

definition fl_sub :: "fl \<Rightarrow> fl \<Rightarrow> fl" where
  "fl_sub a b = fl_add a (fl_neg b)"

fun fl_mul :: "fl \<Rightarrow> fl \<Rightarrow> fl" where
  "fl_mul (Fin a) (Fin b) = f64_range (a * b)"
| "fl_mul NaN _ = NaN"
| "fl_mul _ NaN = NaN"
| "fl_mul (Fin a) PInf = (if a = 0 then NaN else if 0 < a then PInf else NInf)"
| "fl_mul (Fin a) NInf = (if a = 0 then NaN else if 0 < a then NInf else PInf)"
| "fl_mul PInf (Fin b) = (if b = 0 then NaN else if 0 < b then PInf else NInf)"
| "fl_mul NInf (Fin b) = (if b = 0 then NaN else if 0 < b then NInf else PInf)"
| "fl_mul PInf PInf = PInf"
| "fl_mul NInf NInf = PInf"
| "fl_mul PInf NInf = NInf"
| "fl_mul NInf PInf = NInf"

text \<open>numpy's division: a zero divisor gives an infinity or NaN, never an exception.\<close>

fun fl_div :: "fl \<Rightarrow> fl \<Rightarrow> fl" where
  "fl_div (Fin a) (Fin b) =
     (if b = 0 then (if a = 0 then NaN else if 0 < a then PInf else NInf)
      else f64_range (a / b))"
| "fl_div NaN _ = NaN"
| "fl_div _ NaN = NaN"
| "fl_div (Fin a) PInf = Fin 0"
| "fl_div (Fin a) NInf = Fin 0"
| "fl_div PInf (Fin b) = (if 0 \<le> b then PInf else NInf)"
| "fl_div NInf (Fin b) = (if 0 \<le> b then NInf else PInf)"
| "fl_div PInf PInf = NaN"
| "fl_div PInf NInf = NaN"
| "fl_div NInf PInf = NaN"
| "fl_div NInf NInf = NaN"

text \<open>Comparisons: every comparison with NaN is false.\<close>

fun fl_le :: "fl \<Rightarrow> fl \<Rightarrow> bool" where
  "fl_le (Fin a) (Fin b) = (a \<le> b)"
| "fl_le NaN _ = False"
| "fl_le _ NaN = False"
| "fl_le NInf _ = True"
| "fl_le _ PInf = True"
| "fl_le PInf _ = False"
| "fl_le _ NInf = False"

fun fl_lt :: "fl \<Rightarrow> fl \<Rightarrow> bool" where
  "fl_lt (Fin a) (Fin b) = (a < b)"
| "fl_lt NaN _ = False"
| "fl_lt _ NaN = False"
| "fl_lt PInf _ = False"
| "fl_lt _ NInf = False"
| "fl_lt NInf _ = True"
| "fl_lt _ PInf = True"

text \<open>\<open>np.exp\<close> and \<open>np.log\<close>: the logarithm of zero is minus infinity.\<close>

fun fl_exp :: "fl \<Rightarrow> fl" where
  "fl_exp (Fin a) = f64_range (exp a)"
| "fl_exp PInf = PInf"
| "fl_exp NInf = Fin 0"
| "fl_exp NaN = NaN"

fun fl_log :: "fl \<Rightarrow> fl" where
  "fl_log (Fin a) = (if 0 < a then Fin (ln a) else if a = 0 then NInf else NaN)"
| "fl_log PInf = PInf"
| "fl_log NInf = NaN"
| "fl_log NaN = NaN"

text \<open>\<open>base ** k\<close> for a float base and an integer exponent.\<close>

fun fl_powi :: "fl \<Rightarrow> int \<Rightarrow> fl" where
  "fl_powi (Fin a) k =
     (if 0 \<le> k then f64_range (a ^ nat k)
      else if a = 0 then PInf
      else f64_range (1 / a ^ nat (- k)))"
| "fl_powi NaN k = (if k = 0 then Fin 1 else NaN)"
| "fl_powi PInf k = (if k = 0 then Fin 1 else if 0 < k then PInf else Fin 0)"
| "fl_powi NInf k =
     (if k = 0 then Fin 1 else if k < 0 then Fin 0 else if even k then PInf else NInf)"

text \<open>Python's builtin \<open>min(a, b)\<close> keeps \<open>a\<close> unless \<open>b < a\<close>.\<close>

definition py_min :: "fl \<Rightarrow> fl \<Rightarrow> fl" where
  "py_min a b = (if fl_lt b a then b else a)"

text \<open>\<open>int(t)\<close> truncates towards zero.\<close>

definition py_int :: "real \<Rightarrow> int" where
  "py_int t = (if 0 \<le> t then \<lfloor>t\<rfloor> else \<lceil>t\<rceil>)"

text \<open>\<open>np.prod\<close> and \<open>np.cumprod\<close> multiply from the left.\<close>

definition np_prod :: "fl list \<Rightarrow> fl" where
  "np_prod xs = foldl fl_mul (Fin 1) xs"

primrec cumprod_from :: "fl \<Rightarrow> fl list \<Rightarrow> fl list" where
  "cumprod_from acc [] = []"
| "cumprod_from acc (x # xs) = fl_mul acc x # cumprod_from (fl_mul acc x) xs"

definition np_cumprod :: "fl list \<Rightarrow> fl list" where
  "np_cumprod xs = (case xs of [] \<Rightarrow> [] | x # ys \<Rightarrow> x # cumprod_from x ys)"

section \<open>Errors and indexing\<close>

datatype error = ValueError | IndexError | ZeroDivisionError | OverflowError

text \<open>
  Integers. The arguments \<open>x\<close> and \<open>n\<close> are Python integers, the entries of \<open>ages\<close>
  are \<open>int64\<close>. Comparisons between the two are exact. In a subtraction the Python
  integer is converted to \<open>int64\<close> first, which raises OverflowError outside the
  64-bit range (numpy 2), and the \<open>int64\<close> difference wraps around.
\<close>

definition int64 :: "int \<Rightarrow> error + int" where
  "int64 z = (if - (2 ^ 63) \<le> z \<and> z < 2 ^ 63 then Inr z else Inl OverflowError)"

definition wrap64 :: "int \<Rightarrow> int" where
  "wrap64 z = (z + 2 ^ 63) mod 2 ^ 64 - 2 ^ 63"

text \<open>
  A value \<open>npx\<close> returns is a Python float (the literals \<open>0.0\<close>, \<open>1.0\<close> and
  \<open>float(...)\<close>) or a numpy \<open>float64\<close> (arithmetic on array elements). The two
  differ in one operation the code uses: a Python float divided by a Python float zero
  raises ZeroDivisionError, while a division in which either side is a \<open>float64\<close>
  follows numpy and returns an infinity or NaN.
\<close>

datatype scalar = PyFloat fl | NpFloat fl

fun val :: "scalar \<Rightarrow> fl" where
  "val (PyFloat a) = a"
| "val (NpFloat a) = a"

fun truediv :: "scalar \<Rightarrow> scalar \<Rightarrow> error + scalar" where
  "truediv (PyFloat a) (PyFloat b) =
     (if b = Fin 0 then Inl ZeroDivisionError else Inr (PyFloat (fl_div a b)))"
| "truediv a b = Inr (NpFloat (fl_div (val a) (val b)))"

text \<open>\<open>np.where(cond)[0]\<close>: the indices at which the condition holds, ascending.\<close>

definition np_where :: "(int \<Rightarrow> bool) \<Rightarrow> int list \<Rightarrow> nat list" where
  "np_where P xs = filter (\<lambda>k. P (xs ! k)) [0..<length xs]"

text \<open>\<open>xs[k]\<close> for \<open>k \<ge> 0\<close>, and \<open>xs[0]\<close>, \<open>xs[-1]\<close>: IndexError out of range.\<close>

definition item :: "'a list \<Rightarrow> nat \<Rightarrow> error + 'a" where
  "item xs k = (if k < length xs then Inr (xs ! k) else Inl IndexError)"

definition first_item :: "'a list \<Rightarrow> error + 'a" where
  "first_item xs = (case xs of [] \<Rightarrow> Inl IndexError | x # _ \<Rightarrow> Inr x)"

definition last_item :: "'a list \<Rightarrow> error + 'a" where
  "last_item xs = (case xs of [] \<Rightarrow> Inl IndexError | _ # _ \<Rightarrow> Inr (last xs))"

text \<open>Sequencing of a computation that may raise.\<close>

definition bind :: "error + 'a \<Rightarrow> ('a \<Rightarrow> error + 'b) \<Rightarrow> error + 'b" where
  "bind m f = (case m of Inl e \<Rightarrow> Inl e | Inr a \<Rightarrow> f a)"


section \<open>MortalityTable\<close>

text \<open>
  The object's fields. \<open>ages\<close> is an integer array (ages are taken to lie in the range of
  numpy's 64-bit \<open>int\<close>), the other four are float arrays. The metadata dictionary is
  stored and never read by any operation, and is left out.
\<close>

record MortalityTable =
  ages :: "int list"
  qx :: "fl list"
  px :: "fl list"
  lx :: "fl list"
  dx :: "fl list"
  name :: string

text \<open>
  \<open>_calculate_survival_probabilities\<close>: \<open>px = 1 - qx\<close>, \<open>lx\<close> the reversed cumulative
  product of the reversed \<open>px\<close>, divided by its first entry (an IndexError on an empty
  array), and \<open>dx = lx * qx\<close>.
\<close>

definition calculate_survival_probabilities ::
  "int list \<Rightarrow> fl list \<Rightarrow> string \<Rightarrow> error + MortalityTable" where
  "calculate_survival_probabilities as qs nm =
     (let ps = map (fl_sub (Fin 1)) qs;
          raw = rev (np_cumprod (rev ps))
      in bind (first_item raw) (\<lambda>l0.
           let ls = map (\<lambda>l. fl_div l l0) raw
           in Inr \<lparr>ages = as, qx = qs, px = ps, lx = ls,
                   dx = map (\<lambda>(l, q). fl_mul l q) (zip ls qs), name = nm\<rparr>))"

definition MortalityTable_init ::
  "int list \<Rightarrow> fl list \<Rightarrow> string \<Rightarrow> error + MortalityTable" where
  "MortalityTable_init as qs nm =
     (if length as \<noteq> length qs then Inl ValueError
      else if \<not> list_all (\<lambda>q. fl_le (Fin 0) q \<and> fl_le q (Fin 1)) qs then Inl ValueError
      else calculate_survival_probabilities as qs nm)"



definition get_qx_at :: "MortalityTable \<Rightarrow> int \<Rightarrow> error + fl" where
  "get_qx_at tbl a =
     (if a \<in> set (ages tbl)
      then bind (first_item (np_where (\<lambda>b. b = a) (ages tbl))) (item (qx tbl))
      else Inr NaN)"





text \<open>
  \<open>life_expectancy\<close>: a ValueError for an age that is not in the table, 0 when no
  row follows the age's row, and otherwise 0.5 plus the entries of \<open>lx\<close> after it.
\<close>

definition life_expectancy :: "MortalityTable \<Rightarrow> int \<Rightarrow> error + fl" where
  "life_expectancy tbl age =
     (if age \<notin> set (ages tbl) then Inl ValueError
      else bind (first_item (np_where (\<lambda>b. b = age) (ages tbl))) (\<lambda>idx.
        let remaining_lx = drop idx (lx tbl)
        in if length remaining_lx \<le> 1 then Inr (Fin 0)
           else Inr (foldl fl_add (Fin (1 / 2)) (tl remaining_lx))))"

section \<open>SurvivalFunctions\<close>

record SurvivalFunctions =
  mt :: MortalityTable
  rate_i :: fl
  disc_v :: fl

text \<open>The constructor divides two Python floats: a rate of \<open>-1\<close> raises.\<close>

definition SurvivalFunctions_init :: "MortalityTable \<Rightarrow> fl \<Rightarrow> error + SurvivalFunctions" where
  "SurvivalFunctions_init tbl interest_rate =
     bind (truediv (PyFloat (Fin 1)) (PyFloat (fl_add (Fin 1) interest_rate))) (\<lambda>d.
       Inr \<lparr>mt = tbl, rate_i = interest_rate, disc_v = val d\<rparr>)"

text \<open>
  \<open>npx\<close>. Past the last age of the table: the last row whose age is at most \<open>x\<close>, its
  \<open>px\<close> to the power \<open>x + n\<close> minus that age, times its \<open>lx\<close>, divided by the \<open>lx\<close> of
  the first row whose age is \<open>x\<close> (an IndexError when there is none); the
  subtraction raises OverflowError when \<open>x + n\<close> is not a 64-bit integer. Inside the table:
  0 unless both \<open>x\<close> and \<open>x + n\<close> are tabulated, else the product of the slice
  \<open>px[start_idx:end_idx]\<close>.
\<close>

definition npx_extrapolate :: "MortalityTable \<Rightarrow> int \<Rightarrow> int \<Rightarrow> error + scalar" where
  "npx_extrapolate tbl x n =
     (let last_age_idx = np_where (\<lambda>b. b \<le> x) (ages tbl)
      in if length last_age_idx = 0 then Inr (PyFloat (Fin 0))
         else
           (let last_idx = last last_age_idx
            in bind (int64 (x + n)) (\<lambda>z.
               let remaining_years = wrap64 (z - ages tbl ! last_idx)
               in bind (item (px tbl) last_idx) (\<lambda>p.
                  let px_remaining = fl_powi p remaining_years
                  in bind (item (lx tbl) last_idx) (\<lambda>l.
                     bind (first_item (np_where (\<lambda>b. b = x) (ages tbl))) (\<lambda>k.
                     bind (item (lx tbl) k) (\<lambda>lx_x.
                       Inr (NpFloat (fl_div (fl_mul l px_remaining) lx_x)))))))))"

definition npx_in_table :: "MortalityTable \<Rightarrow> int \<Rightarrow> int \<Rightarrow> error + scalar" where
  "npx_in_table tbl x n =
     (let start_idx = np_where (\<lambda>b. b = x) (ages tbl);
          end_idx = np_where (\<lambda>b. b = x + n) (ages tbl)
      in if length start_idx = 0 \<or> length end_idx = 0 then Inr (PyFloat (Fin 0))
         else Inr (PyFloat (np_prod
                (take (hd end_idx - hd start_idx) (drop (hd start_idx) (px tbl))))))"

definition npx :: "SurvivalFunctions \<Rightarrow> int \<Rightarrow> int \<Rightarrow> error + scalar" where
  "npx sf x n =
     (if n < 0 then Inr (PyFloat (Fin 0))
      else if n = 0 then Inr (PyFloat (Fin 1))
      else bind (last_item (ages (mt sf))) (\<lambda>max_age.
        if x + n > max_age then npx_extrapolate (mt sf) x n
        else npx_in_table (mt sf) x n))"

definition nqx :: "SurvivalFunctions \<Rightarrow> int \<Rightarrow> int \<Rightarrow> error + fl" where
  "nqx sf x n = bind (npx sf x n) (\<lambda>p. Inr (fl_sub (Fin 1) (val p)))"

text \<open>
  \<open>tpx\<close>, for a finite number \<open>t\<close> of years. The scalar lookups \<open>get_qx(last_age)\<close>
  and \<open>get_qx(x + n)\<close> are the float \<open>get_qx\<close> returns for a scalar argument.
\<close>

definition tpx :: "SurvivalFunctions \<Rightarrow> int \<Rightarrow> real \<Rightarrow> error + fl" where
  "tpx sf x t =
     (if t = 0 then Inr (Fin 1)
      else if t < 0 then Inr (Fin 0)
      else
        (let n = py_int t; frac = t - of_int n
         in bind (npx sf x n) (\<lambda>n_year_survival.
            bind (last_item (ages (mt sf))) (\<lambda>last_age.
              if n + x \<ge> last_age then
                (if x + n \<ge> last_age then
                   bind (int64 x) (\<lambda>z.
                     let remaining_years = t - of_int (wrap64 (last_age - z))
                     in bind (get_qx_at (mt sf) last_age) (\<lambda>q_last.
                        let mu = fl_neg (fl_log (fl_sub (Fin 1) q_last))
                        in Inr (fl_mul (val n_year_survival)
                                 (fl_exp (fl_mul (fl_neg mu) (Fin remaining_years))))))
                 else Inr (val n_year_survival))
              else
                bind (get_qx_at (mt sf) (x + n)) (\<lambda>q_next.
                  let survival_frac = fl_sub (Fin 1) (fl_mul (Fin frac) q_next)
                  in Inr (fl_mul (val n_year_survival) survival_frac))))))"

text \<open>
  The annuity loop over \<open>t\<close> in a range, carrying \<open>annuity\<close> and \<open>v_t\<close>.
\<close>

fun annuity_loop ::
  "SurvivalFunctions \<Rightarrow> int \<Rightarrow> int list \<Rightarrow> fl \<times> fl \<Rightarrow> error + fl \<times> fl" where
  "annuity_loop sf x [] (annuity, v_t) = Inr (annuity, v_t)"
| "annuity_loop sf x (t # ts) (annuity, v_t) =
     bind (tpx sf x (of_int t)) (\<lambda>p.
       annuity_loop sf x ts (fl_add annuity (fl_mul v_t p), fl_mul v_t (disc_v sf)))"

definition annuity_due :: "SurvivalFunctions \<Rightarrow> int \<Rightarrow> int option \<Rightarrow> error + fl" where
  "annuity_due sf x n =
     (case n of
        None \<Rightarrow>
          bind (first_item (np_where (\<lambda>b. b = x) (ages (mt sf)))) (\<lambda>k.
          bind (annuity_loop sf x [0 .. int (length (ages (mt sf))) - int k - 1]
                  (Fin 0, Fin 1)) (\<lambda>r. Inr (fst r)))
      | Some m \<Rightarrow>
          bind (annuity_loop sf x [0 .. m - 1] (Fin 0, Fin 1)) (\<lambda>r. Inr (fst r)))"

definition annuity_immediate :: "SurvivalFunctions \<Rightarrow> int \<Rightarrow> int option \<Rightarrow> error + fl" where
  "annuity_immediate sf x n = bind (annuity_due sf x n) (\<lambda>a. Inr (fl_sub a (Fin 1)))"

text \<open>
  The assurance loop. The death probability of year \<open>t\<close> is \<open>1 - npx(x, 1)\<close> for
  \<open>t = 1\<close> and \<open>1 - npx(x, t) / npx(x, t - 1)\<close> after it, capped at 1.
\<close>

definition q_xt :: "SurvivalFunctions \<Rightarrow> int \<Rightarrow> int \<Rightarrow> error + fl" where
  "q_xt sf x t =
     (if t > 1 then
        bind (npx sf x t) (\<lambda>a.
        bind (npx sf x (t - 1)) (\<lambda>b.
        bind (truediv a b) (\<lambda>r. Inr (fl_sub (Fin 1) (val r)))))
      else bind (npx sf x 1) (\<lambda>a. Inr (fl_sub (Fin 1) (val a))))"

fun assurance_loop ::
  "SurvivalFunctions \<Rightarrow> int \<Rightarrow> int list \<Rightarrow> fl \<times> fl \<Rightarrow> error + fl \<times> fl" where
  "assurance_loop sf x [] (assurance, v_t) = Inr (assurance, v_t)"
| "assurance_loop sf x (t # ts) (assurance, v_t) =
     bind (q_xt sf x t) (\<lambda>q.
       assurance_loop sf x ts
         (fl_add assurance (fl_mul v_t (py_min q (Fin 1))), fl_mul v_t (disc_v sf)))"

definition assurance :: "SurvivalFunctions \<Rightarrow> int \<Rightarrow> int option \<Rightarrow> error + fl" where
  "assurance sf x n =
     (case n of
        None \<Rightarrow>
          bind (first_item (np_where (\<lambda>b. b = x) (ages (mt sf)))) (\<lambda>k.
            let max_t = int (length (ages (mt sf))) - int k - 1
            in bind (assurance_loop sf x [1 .. max_t] (Fin 0, disc_v sf)) (\<lambda>r. Inr (fst r)))
      | Some m \<Rightarrow>
          bind (assurance_loop sf x [1 .. m] (Fin 0, disc_v sf)) (\<lambda>r. Inr (fst r)))"

definition net_single_premium :: "SurvivalFunctions \<Rightarrow> int \<Rightarrow> int option \<Rightarrow> error + fl" where
  "net_single_premium sf x n = assurance sf x n"

section \<open>The specification's formulas\<close>

text \<open>
  The value the specification gives for a lookup: the \<open>qx\<close> stored with the age, NaN
  for an age that is not in the table.
\<close>

definition stored_qx :: "MortalityTable \<Rightarrow> int \<Rightarrow> fl" where
  "stored_qx tbl a = (case map_of (zip (ages tbl) (qx tbl)) a of None \<Rightarrow> NaN | Some q \<Rightarrow> q)"

text \<open>
  The specification's life expectancy at the row \<open>idx\<close>: 0.5 plus the sum of the
  ratios \<open>lx[j] / lx[idx]\<close> over the later rows \<open>j\<close>.
\<close>

definition life_expectancy_claimed :: "MortalityTable \<Rightarrow> nat \<Rightarrow> fl" where
  "life_expectancy_claimed tbl idx =
     foldl fl_add (Fin (1 / 2))
       (map (\<lambda>l. fl_div l (lx tbl ! idx)) (drop (Suc idx) (lx tbl)))"

text \<open>
  The specification's fractional-year survival for \<open>t > 0\<close>, given \<open>p = npx(x, n)\<close>
  with \<open>n\<close> the integer part of \<open>t\<close>: the linear correction while \<open>x + n\<close> is below
  the last age of the table, the constant force of mortality of the last age from
  there on.
\<close>

definition tpx_claimed :: "MortalityTable \<Rightarrow> fl \<Rightarrow> int \<Rightarrow> real \<Rightarrow> fl" where
  "tpx_claimed tbl p x t =
     (let n = \<lfloor>t\<rfloor>; frac = t - of_int n; last_age = last (ages tbl)
      in if x + n < last_age
         then fl_mul p (fl_sub (Fin 1) (fl_mul (Fin frac) (stored_qx tbl (x + n))))
         else
           (let mu = fl_neg (fl_log (fl_sub (Fin 1) (stored_qx tbl last_age)));
                remaining_years = t - of_int (last_age - x)
            in fl_mul p (fl_exp (fl_mul (fl_neg mu) (Fin remaining_years)))))"

section \<open>Example tables\<close>

text \<open>
  Three consecutive ages with \<open>qx = 1/2\<close> each, and the engine on it at 5 percent and
  at rate 0.
\<close>

abbreviation table_a :: MortalityTable where
  "table_a \<equiv>
     \<lparr>ages = [20, 21, 22], qx = [Fin (1 / 2), Fin (1 / 2), Fin (1 / 2)],
      px = [Fin (1 / 2), Fin (1 / 2), Fin (1 / 2)], lx = [Fin 1, Fin 2, Fin 4],
      dx = [Fin (1 / 2), Fin 1, Fin 2], name = ''A''\<rparr>"

abbreviation sf_a :: SurvivalFunctions where
  "sf_a \<equiv> \<lparr>mt = table_a, rate_i = Fin (1 / 20), disc_v = Fin (20 / 21)\<rparr>"


text \<open>Ages 20 and 22 only (age 21 is missing), at rate 0.\<close>

abbreviation table_gap :: MortalityTable where
  "table_gap \<equiv>
     \<lparr>ages = [20, 22], qx = [Fin (1 / 10), Fin (1 / 5)],
      px = [Fin (9 / 10), Fin (4 / 5)], lx = [Fin 1, Fin (10 / 9)],
      dx = [Fin (1 / 10), Fin (2 / 9)], name = ''G''\<rparr>"

abbreviation sf_gap :: SurvivalFunctions where
  "sf_gap \<equiv> \<lparr>mt = table_gap, rate_i = Fin 0, disc_v = Fin 1\<rparr>"



text \<open>A table that ends with \<open>qx = 1\<close>, as life tables do at their final age.\<close>

abbreviation table_end :: MortalityTable where
  "table_end \<equiv>
     \<lparr>ages = [99, 100], qx = [Fin (1 / 2), Fin 1],
      px = [Fin (1 / 2), Fin 0], lx = [NaN, NaN],
      dx = [NaN, NaN], name = ''E''\<rparr>"

section \<open>The range of the format\<close>

lemma max_round_large: "2 ^ 1023 \<le> max_round"
proof -
  have "(2::real) ^ 1024 = 2 * 2 ^ 1023" by simp
  moreover have "(2::real) ^ 970 \<le> 2 ^ 1023" by (rule power_increasing) simp_all
  ultimately show ?thesis by (simp add: max_round_def)
qed

lemma max_round_gt: "1024 < max_round"
proof -
  have "(2::real) ^ 11 \<le> 2 ^ 1023" by (rule power_increasing) simp_all
  moreover have "(1024::real) < 2 ^ 11" by simp
  ultimately have "(1024::real) < 2 ^ 1023" by (rule less_le_trans[rotated])
  then show ?thesis using max_round_large by (rule less_le_trans)
qed

lemma min_round_pos: "0 < min_round"
  by (simp add: min_round_def)

lemma min_round_lt: "min_round < 1 / 1024"
proof -
  have "(2::real) ^ 10 < 2 ^ 1075" by (rule power_strict_increasing) simp_all
  then have "1 / (2::real) ^ 1075 < 1 / 2 ^ 10" by (simp add: frac_less2)
  then show ?thesis by (simp add: min_round_def)
qed

lemma f64_overflow_id: "\<bar>c\<bar> \<le> 1024 \<Longrightarrow> f64_overflow c = Fin c"
  using max_round_gt by (auto simp: f64_overflow_def)

lemma f64_range_id: "1 / 1024 \<le> \<bar>c\<bar> \<Longrightarrow> \<bar>c\<bar> \<le> 1024 \<Longrightarrow> f64_range c = Fin c"
  using min_round_lt by (auto simp: f64_range_def f64_overflow_id)

lemma f64_range_0 [simp]: "f64_range 0 = Fin 0"
  using min_round_pos by (simp add: f64_range_def)

lemma f64_range_unit:
  assumes "0 \<le> c" and "c \<le> 1"
  shows "\<exists>d. f64_range c = Fin d \<and> 0 \<le> d \<and> d \<le> c"
  using assms max_round_gt by (auto simp: f64_range_def f64_overflow_def)



lemma fl_sub_unit: "0 \<le> q \<Longrightarrow> q \<le> 1 \<Longrightarrow> fl_sub (Fin 1) (Fin q) = Fin (1 - q)"
  by (simp add: fl_sub_def f64_overflow_id)



lemma int64_in_range: "- (2 ^ 63) \<le> z \<Longrightarrow> z < 2 ^ 63 \<Longrightarrow> int64 z = Inr z"
  by (simp add: int64_def)

lemma wrap64_in_range: "- (2 ^ 63) \<le> z \<Longrightarrow> z < 2 ^ 63 \<Longrightarrow> wrap64 z = z"
  by (simp add: wrap64_def)

text \<open>The facts that evaluate the model on a concrete input.\<close>

lemmas run_defs = bind_def first_item_def last_item_def item_def np_where_def Let_def
  f64_overflow_id f64_range_id int64_def wrap64_in_range

section \<open>Arrays of finite values\<close>

lemma list_all_unit_Fin:
  "list_all (\<lambda>q. fl_le (Fin 0) q \<and> fl_le q (Fin 1)) qs \<Longrightarrow>
     \<exists>rs. qs = map Fin rs \<and> (\<forall>r\<in>set rs. 0 \<le> r \<and> r \<le> 1)"
proof (induction qs)
  case Nil
  then show ?case by simp
next
  case (Cons q qs)
  then obtain rs where rs: "qs = map Fin rs" "\<forall>r\<in>set rs. 0 \<le> r \<and> r \<le> 1" by auto
  from Cons.prems obtain r where r: "q = Fin r" "0 \<le> r" "r \<le> 1"
    by (cases q) auto
  show ?case using rs r by (intro exI[of _ "r # rs"]) simp
qed

lemma length_cumprod_from: "length (cumprod_from acc xs) = length xs"
  by (induction xs arbitrary: acc) simp_all

lemma length_np_cumprod: "length (np_cumprod xs) = length xs"
  by (simp add: np_cumprod_def length_cumprod_from split: list.splits)



text \<open>
  The array \<open>np.cumprod(px[::-1])[::-1]\<close>, built from its last entry backwards.
\<close>

lemma raw_lx_single: "rev (np_cumprod (rev [x])) = [x]"
  by (simp add: np_cumprod_def)



lemma calculate_no_ValueError:
  "calculate_survival_probabilities as qs nm \<noteq> Inl ValueError"
  by (simp add: calculate_survival_probabilities_def bind_def first_item_def Let_def
      split: list.splits)

lemma calculate_InrD:
  assumes "calculate_survival_probabilities as qs nm = Inr tbl"
  shows "ages tbl = as" and "qx tbl = qs" and "name tbl = nm"
    and "px tbl = map (fl_sub (Fin 1)) qs"
    and "\<exists>l0. first_item (rev (np_cumprod (rev (px tbl)))) = Inr l0 \<and>
           lx tbl = map (\<lambda>l. fl_div l l0) (rev (np_cumprod (rev (px tbl))))"
    and "dx tbl = map (\<lambda>(l, q). fl_mul l q) (zip (lx tbl) qs)"
  using assms
  by (auto simp: calculate_survival_probabilities_def bind_def first_item_def Let_def
      split: list.splits)

lemma init_InrD:
  assumes "MortalityTable_init as qs nm = Inr tbl"
  shows "length as = length qs"
    and "list_all (\<lambda>q. fl_le (Fin 0) q \<and> fl_le q (Fin 1)) qs"
    and "calculate_survival_probabilities as qs nm = Inr tbl"
  using assms by (auto simp: MortalityTable_init_def split: if_splits)

lemma init_lengths:
  assumes "MortalityTable_init as qs nm = Inr tbl"
  shows "ages tbl = as" and "qx tbl = qs"
    and "length (qx tbl) = length as" and "length (px tbl) = length as"
    and "length (lx tbl) = length as" and "length (dx tbl) = length as"
    and "as \<noteq> []"
proof -
  note c = init_InrD(3)[OF assms] and l = init_InrD(1)[OF assms]
  show a: "ages tbl = as" and q: "qx tbl = qs" using calculate_InrD[OF c] by simp_all
  show "length (qx tbl) = length as" using q l by simp
  show p: "length (px tbl) = length as" using calculate_InrD(4)[OF c] l by simp
  from calculate_InrD(5)[OF c] obtain l0
    where l0: "first_item (rev (np_cumprod (rev (px tbl)))) = Inr l0"
      and lx: "lx tbl = map (\<lambda>l. fl_div l l0) (rev (np_cumprod (rev (px tbl))))" by blast
  show lxl: "length (lx tbl) = length as" using lx p by (simp add: length_np_cumprod)
  show "length (dx tbl) = length as" using calculate_InrD(6)[OF c] lxl l by simp
  from l0 have "rev (np_cumprod (rev (px tbl))) \<noteq> []"
    by (auto simp: first_item_def)
  then have "length (rev (np_cumprod (rev (px tbl)))) \<noteq> 0" by simp
  then show "as \<noteq> []" using p by (simp add: length_np_cumprod)
qed

text \<open>The arrays of a constructed table, as lists of reals.\<close>

lemma init_px_reals:
  assumes "MortalityTable_init as qs nm = Inr tbl"
  obtains ps where "px tbl = map Fin ps" and "length ps = length as"
    and "\<forall>p\<in>set ps. 0 \<le> p \<and> p \<le> 1"
proof -
  from list_all_unit_Fin[OF init_InrD(2)[OF assms]] obtain rs
    where rs: "qs = map Fin rs" "\<forall>r\<in>set rs. 0 \<le> r \<and> r \<le> 1" by blast
  have len: "length rs = length as" using init_InrD(1)[OF assms] rs by simp
  have "px tbl = map (fl_sub (Fin 1)) (map Fin rs)"
    using calculate_InrD(4)[OF init_InrD(3)[OF assms]] rs(1) by simp
  also have "\<dots> = map Fin (map (\<lambda>r. 1 - r) rs)"
    using rs(2) by (simp add: fl_sub_unit)
  finally have "px tbl = map Fin (map (\<lambda>r. 1 - r) rs)" .
  moreover have "length (map (\<lambda>r. 1 - r) rs) = length as" using len by simp
  moreover have "\<forall>p\<in>set (map (\<lambda>r. 1 - r) rs). 0 \<le> p \<and> p \<le> 1" using rs(2) by auto
  ultimately show thesis using that by blast
qed


text \<open>
  C7. Construction raises the validation error (ValueError) exactly when the two
  sequences differ in length or some \<open>qx\<close> value is not in [0,1]; a table that is
  returned holds the two inputs and the eagerly computed \<open>px\<close>, \<open>lx\<close> and \<open>dx\<close>.
  No operation of the model returns a table, so a constructed table is never changed.
\<close>

theorem construction_validates_and_derives:
  "(MortalityTable_init as qs nm = Inl ValueError \<longleftrightarrow>
      length as \<noteq> length qs \<or> (\<exists>q\<in>set qs. \<not> (fl_le (Fin 0) q \<and> fl_le q (Fin 1))))
   \<and> (\<forall>tbl. MortalityTable_init as qs nm = Inr tbl \<longrightarrow>
         ages tbl = as \<and> qx tbl = qs \<and> name tbl = nm
         \<and> px tbl = map (fl_sub (Fin 1)) qs
         \<and> (\<exists>l0. first_item (rev (np_cumprod (rev (px tbl)))) = Inr l0 \<and>
                lx tbl = map (\<lambda>l. fl_div l l0) (rev (np_cumprod (rev (px tbl)))))
         \<and> dx tbl = map (\<lambda>(l, q). fl_mul l q) (zip (lx tbl) qs))"
proof (intro conjI allI impI)
  show "MortalityTable_init as qs nm = Inl ValueError \<longleftrightarrow>
      length as \<noteq> length qs \<or> (\<exists>q\<in>set qs. \<not> (fl_le (Fin 0) q \<and> fl_le q (Fin 1)))"
    using calculate_no_ValueError[of as qs nm]
    by (auto simp: MortalityTable_init_def list_all_iff)
next
  fix tbl assume "MortalityTable_init as qs nm = Inr tbl"
  then have c: "calculate_survival_probabilities as qs nm = Inr tbl" by (rule init_InrD(3))
  show "ages tbl = as" "qx tbl = qs" "name tbl = nm" "px tbl = map (fl_sub (Fin 1)) qs"
    "\<exists>l0. first_item (rev (np_cumprod (rev (px tbl)))) = Inr l0 \<and>
                lx tbl = map (\<lambda>l. fl_div l l0) (rev (np_cumprod (rev (px tbl))))"
    "dx tbl = map (\<lambda>(l, q). fl_mul l q) (zip (lx tbl) qs)"
    using calculate_InrD[OF c] by blast+
qed

lemma init_table_a:
  "MortalityTable_init [20, 21, 22] [Fin (1 / 2), Fin (1 / 2), Fin (1 / 2)] ''A'' = Inr table_a"
  by (simp add: MortalityTable_init_def calculate_survival_probabilities_def fl_sub_def
      np_cumprod_def run_defs)

theorem construction_validates_and_derives_witness:
  "MortalityTable_init [20, 21, 22] [Fin (1 / 2), Fin (1 / 2), Fin (1 / 2)] ''A'' = Inr table_a
   \<and> MortalityTable_init [20, 21, 22] [Fin (1 / 2), Fin (3 / 2), Fin (1 / 2)] ''A'' = Inl ValueError
   \<and> MortalityTable_init [20, 21, 22] [Fin (1 / 2), Fin (1 / 2)] ''A'' = Inl ValueError
   \<and> px table_a = map (fl_sub (Fin 1)) [Fin (1 / 2), Fin (1 / 2), Fin (1 / 2)]
   \<and> dx table_a = map (\<lambda>(l, q). fl_mul l q) (zip (lx table_a) [Fin (1 / 2), Fin (1 / 2), Fin (1 / 2)])"
proof -
  have a: "MortalityTable_init [20, 21, 22] [Fin (1 / 2), Fin (1 / 2), Fin (1 / 2)] ''A'' = Inr table_a"
    by (rule init_table_a)
  have b: "MortalityTable_init [20, 21, 22] [Fin (1 / 2), Fin (3 / 2), Fin (1 / 2)] ''A'' = Inl ValueError"
    using construction_validates_and_derives[of "[20, 21, 22]" "[Fin (1 / 2), Fin (3 / 2), Fin (1 / 2)]" "''A''"]
    by simp
  have c: "MortalityTable_init [20, 21, 22] [Fin (1 / 2), Fin (1 / 2)] ''A'' = Inl ValueError"
    using construction_validates_and_derives[of "[20, 21, 22]" "[Fin (1 / 2), Fin (1 / 2)]" "''A''"]
    by simp
  have d: "px table_a = map (fl_sub (Fin 1)) [Fin (1 / 2), Fin (1 / 2), Fin (1 / 2)]
     \<and> dx table_a = map (\<lambda>(l, q). fl_mul l q) (zip (lx table_a) [Fin (1 / 2), Fin (1 / 2), Fin (1 / 2)])"
    using construction_validates_and_derives[of "[20, 21, 22]" "[Fin (1 / 2), Fin (1 / 2), Fin (1 / 2)]" "''A''"] a
    by blast
  from a b c d show ?thesis by blast
qed

lemma construction_empty: "MortalityTable_init [] [] nm = Inl IndexError"
  by (simp add: MortalityTable_init_def calculate_survival_probabilities_def np_cumprod_def run_defs)

section \<open>The survivors curve\<close>






section \<open>Lookups by age\<close>

lemma np_where_Cons:
  "np_where P (x # xs) = (if P x then [0] else []) @ map Suc (np_where P xs)"
proof -
  have "[0..<length (x # xs)] = 0 # map Suc [0..<length xs]"
    by (simp add: upt_conv_Cons map_Suc_upt del: upt_Suc)
  then show ?thesis
    by (simp add: np_where_def filter_map comp_def del: upt_Suc)
qed

lemma set_np_where: "set (np_where P xs) = {k. k < length xs \<and> P (xs ! k)}"
  by (auto simp: np_where_def)

lemma first_item_map_Suc:
  "first_item (map Suc ks) = (case first_item ks of Inl e \<Rightarrow> Inl e | Inr k \<Rightarrow> Inr (Suc k))"
  by (cases ks) (simp_all add: first_item_def)

lemma first_match:
  "a \<in> set as \<Longrightarrow> length as = length qs \<Longrightarrow>
     \<exists>k. first_item (np_where (\<lambda>b. b = a) as) = Inr k \<and> k < length as \<and> as ! k = a
        \<and> (\<forall>j<k. as ! j \<noteq> a) \<and> map_of (zip as qs) a = Some (qs ! k)"
proof (induction as arbitrary: qs)
  case Nil
  then show ?case by simp
next
  case (Cons b as)
  from Cons.prems(2) obtain q qs' where qs: "qs = q # qs'" "length as = length qs'"
    by (cases qs) auto
  show ?case
  proof (cases "b = a")
    case True
    then show ?thesis using qs by (simp add: np_where_Cons first_item_def)
  next
    case False
    with Cons.prems(1) have "a \<in> set as" by auto
    from Cons.IH[OF this qs(2)] obtain k
      where k: "first_item (np_where (\<lambda>b. b = a) as) = Inr k" "k < length as" "as ! k = a"
        "\<forall>j<k. as ! j \<noteq> a" "map_of (zip as qs') a = Some (qs' ! k)" by blast
    have "first_item (np_where (\<lambda>b. b = a) (b # as)) = Inr (Suc k)"
      using False k(1) by (simp add: np_where_Cons first_item_map_Suc)
    moreover have "\<forall>j<Suc k. (b # as) ! j \<noteq> a"
      using False k(4) by (auto simp: nth_Cons split: nat.splits)
    moreover have "map_of (zip (b # as) qs) a = Some (qs ! Suc k)"
      using False k(5) qs by simp
    ultimately show ?thesis using k(2,3) by (intro exI[of _ "Suc k"]) simp
  qed
qed

lemma first_match_absent:
  "a \<notin> set as \<Longrightarrow> length as = length qs \<Longrightarrow> map_of (zip as qs) a = None"
  by (auto simp: map_of_eq_None_iff dest: set_zip_leftD)

lemma get_qx_at_stored:
  assumes "MortalityTable_init as qs nm = Inr tbl"
  shows "get_qx_at tbl a = Inr (stored_qx tbl a)"
proof -
  have len: "length (ages tbl) = length (qx tbl)"
    using init_lengths(1,3)[OF assms] by simp
  show ?thesis
  proof (cases "a \<in> set (ages tbl)")
    case True
    from first_match[OF True len] obtain k
      where "first_item (np_where (\<lambda>b. b = a) (ages tbl)) = Inr k" "k < length (ages tbl)"
        "map_of (zip (ages tbl) (qx tbl)) a = Some (qx tbl ! k)" by blast
    then show ?thesis using True len
      by (simp add: get_qx_at_def stored_qx_def bind_def item_def)
  next
    case False
    then show ?thesis using first_match_absent[OF False len]
      by (simp add: get_qx_at_def stored_qx_def)
  qed
qed


lemma fl_sub_NaN [simp]: "fl_sub a NaN = NaN"
  by (cases a) (simp_all add: fl_sub_def)


lemma init_table_gap:
  "MortalityTable_init [20, 22] [Fin (1 / 10), Fin (1 / 5)] ''G'' = Inr table_gap"
  by (simp add: MortalityTable_init_def calculate_survival_probabilities_def fl_sub_def
      np_cumprod_def run_defs)




section \<open>Survival over whole and fractional years\<close>

lemma last_item_ages:
  assumes "MortalityTable_init as qs nm = Inr tbl"
  shows "last_item (ages tbl) = Inr (last (ages tbl))"
  using init_lengths(1,7)[OF assms] by (auto simp: last_item_def split: list.splits)

lemma npx_in_table_returns: "\<exists>p. npx_in_table tbl x n = Inr (PyFloat p)"
  by (simp add: npx_in_table_def Let_def)

lemma npx_extrapolate_tabulated:
  assumes "MortalityTable_init as qs nm = Inr tbl" and "x \<in> set (ages tbl)"
    and "- (2 ^ 63) \<le> x + n" and "x + n < 2 ^ 63"
  shows "\<exists>p. npx_extrapolate tbl x n = Inr p"
proof -
  have len: "length (ages tbl) = length (qx tbl)" "length (px tbl) = length (ages tbl)"
    "length (lx tbl) = length (ages tbl)"
    using init_lengths[OF assms(1)] by simp_all
  from first_match[OF assms(2) len(1)] obtain k
    where k: "first_item (np_where (\<lambda>b. b = x) (ages tbl)) = Inr k" "k < length (ages tbl)"
      "ages tbl ! k = x" by blast
  let ?w = "np_where (\<lambda>b. b \<le> x) (ages tbl)"
  have "k \<in> set ?w" using k(2,3) by (simp add: set_np_where)
  then have ne: "?w \<noteq> []" by auto
  then have "last ?w \<in> set ?w" by simp
  then have lt: "last ?w < length (ages tbl)" by (simp add: set_np_where)
  show ?thesis
    using ne lt k(1,2) len int64_in_range[OF assms(3,4)]
    by (simp add: npx_extrapolate_def Let_def bind_def item_def)
qed

lemma npx_tabulated_returns:
  assumes "MortalityTable_init as qs nm = Inr tbl" and "mt sf = tbl" and "x \<in> set (ages tbl)"
    and "- (2 ^ 63) \<le> x + n" and "x + n < 2 ^ 63"
  shows "\<exists>p. npx sf x n = Inr p"
  using last_item_ages[OF assms(1)] npx_extrapolate_tabulated[OF assms(1,3,4,5)]
    npx_in_table_returns[of tbl x n] assms(2)
  by (auto simp: npx_def bind_def)

lemma py_int_pos: "0 < t \<Longrightarrow> py_int t = \<lfloor>t\<rfloor>"
  by (simp add: py_int_def)

lemma init_sf_a: "SurvivalFunctions_init table_a (Fin (1 / 20)) = Inr sf_a"
  by (simp add: SurvivalFunctions_init_def run_defs)

text \<open>
  C8 (as stated, refuted). For \<open>t = 10^19\<close> the sum \<open>x + n\<close> is not a 64-bit integer:
  \<open>npx\<close> raises OverflowError when it subtracts the table age from it, and so does
  \<open>tpx\<close>.
\<close>

theorem tpx_overflow_counterexample:
  "MortalityTable_init [20, 21, 22] [Fin (1 / 2), Fin (1 / 2), Fin (1 / 2)] ''A'' = Inr table_a
   \<and> SurvivalFunctions_init table_a (Fin (1 / 20)) = Inr sf_a
   \<and> tpx sf_a 20 10000000000000000000 = Inl OverflowError"
  by (simp add: init_table_a init_sf_a tpx_def py_int_def npx_def npx_extrapolate_def
      bind_def last_item_def np_where_def int64_def Let_def)

text \<open>
  C8 (amended). On a table whose ages are non-negative 64-bit integers, for a tabulated
  age \<open>x\<close>: \<open>tpx(x, 0) = 1\<close>, \<open>tpx(x, t) = 0\<close> for \<open>t < 0\<close>, and for \<open>t > 0\<close> with
  \<open>x + floor t\<close> below \<open>2^63\<close> the call \<open>npx(x, floor t)\<close> returns and \<open>tpx(x, t)\<close>
  is the specification's formula on its value: the linear correction with the stored
  \<open>qx\<close> of age \<open>x + floor t\<close> below the last age, the constant force of mortality of
  the last age from the last age on.
\<close>

theorem tpx_follows_the_formula:
  assumes "MortalityTable_init as qs nm = Inr tbl" and "mt sf = tbl" and "x \<in> set (ages tbl)"
    and "list_all (\<lambda>a. 0 \<le> a \<and> a < 2 ^ 63) as"
  shows "tpx sf x 0 = Inr (Fin 1)
    \<and> (t < 0 \<longrightarrow> tpx sf x t = Inr (Fin 0))
    \<and> (0 < t \<and> x + \<lfloor>t\<rfloor> < 2 ^ 63 \<longrightarrow>
         (\<exists>p. npx sf x \<lfloor>t\<rfloor> = Inr p \<and> tpx sf x t = Inr (tpx_claimed tbl (val p) x t)))"
proof -
  have ag: "ages tbl = as" and ne: "as \<noteq> []" using init_lengths[OF assms(1)] by simp_all
  have rng: "0 \<le> a \<and> a < 2 ^ 63" if "a \<in> set as" for a
    using assms(4) that by (simp add: list_all_iff)
  have xr: "0 \<le> x" "x < 2 ^ 63" using rng[of x] assms(3) ag by simp_all
  have lr: "0 \<le> last as" "last as < 2 ^ 63" using rng[of "last as"] ne by simp_all
  have z: "tpx sf x 0 = Inr (Fin 1)" by (simp add: tpx_def)
  have n: "tpx sf x t = Inr (Fin 0)" if "t < 0" using that by (simp add: tpx_def)
  have p: "\<exists>p. npx sf x \<lfloor>t\<rfloor> = Inr p \<and> tpx sf x t = Inr (tpx_claimed tbl (val p) x t)"
    if "0 < t \<and> x + \<lfloor>t\<rfloor> < 2 ^ 63"
  proof -
    from that have t: "0 < t" and hi: "x + \<lfloor>t\<rfloor> < 2 ^ 63" by simp_all
    have "0 \<le> \<lfloor>t\<rfloor>" using t by simp
    then have "0 \<le> x + \<lfloor>t\<rfloor>" using xr(1) by simp
    moreover have "- (2 ^ 63) \<le> (0::int)" by simp
    ultimately have lo: "- (2 ^ 63) \<le> x + \<lfloor>t\<rfloor>" by (rule order_trans[rotated])
    from npx_tabulated_returns[OF assms(1,2,3) lo hi] obtain p
      where p: "npx sf x \<lfloor>t\<rfloor> = Inr p" by blast
    have la: "last_item (ages (mt sf)) = Inr (last (ages tbl))"
      using last_item_ages[OF assms(1)] assms(2) by simp
    have q: "get_qx_at (mt sf) a = Inr (stored_qx tbl a)" for a
      using get_qx_at_stored[OF assms(1)] assms(2) by simp
    have ix: "int64 x = Inr x" using xr by (simp add: int64_in_range)
    have w: "wrap64 (last (ages tbl) - x) = last (ages tbl) - x"
      using xr lr ag by (intro wrap64_in_range) simp_all
    have "tpx sf x t = Inr (tpx_claimed tbl (val p) x t)"
    proof (cases "x + \<lfloor>t\<rfloor> < last (ages tbl)")
      case True
      then show ?thesis using t p la q
        by (simp add: tpx_def tpx_claimed_def py_int_pos bind_def Let_def add.commute)
    next
      case False
      then show ?thesis using t p la q ix w
        by (simp add: tpx_def tpx_claimed_def py_int_pos bind_def Let_def add.commute)
    qed
    with p show ?thesis by blast
  qed
  from z n p show ?thesis by blast
qed

theorem tpx_follows_the_formula_witness:
  "MortalityTable_init [20, 21, 22] [Fin (1 / 2), Fin (1 / 2), Fin (1 / 2)] ''A'' = Inr table_a
   \<and> mt sf_a = table_a \<and> 20 \<in> set (ages table_a)
   \<and> list_all (\<lambda>a. 0 \<le> a \<and> a < 2 ^ 63) [20, 21, 22 :: int]
   \<and> (0::real) < 1 / 2 \<and> 20 + \<lfloor>1 / 2 :: real\<rfloor> < 2 ^ 63
   \<and> npx sf_a 20 \<lfloor>1 / 2 :: real\<rfloor> = Inr (PyFloat (Fin 1))
   \<and> tpx sf_a 20 (1 / 2) = Inr (tpx_claimed table_a (Fin 1) 20 (1 / 2))
   \<and> tpx_claimed table_a (Fin 1) 20 (1 / 2) = Fin (3 / 4)
   \<and> (0::real) < 5 / 2 \<and> 20 + \<lfloor>5 / 2 :: real\<rfloor> < 2 ^ 63
   \<and> npx sf_a 20 \<lfloor>5 / 2 :: real\<rfloor> = Inr (PyFloat (Fin (1 / 4)))
   \<and> tpx sf_a 20 (5 / 2) = Inr (tpx_claimed table_a (Fin (1 / 4)) 20 (5 / 2))"
proof -
  have m: "mt sf_a = table_a" "20 \<in> set (ages table_a)"
    "list_all (\<lambda>a. 0 \<le> a \<and> a < 2 ^ 63) [20, 21, 22 :: int]" by simp_all
  have f: "\<lfloor>1 / 2 :: real\<rfloor> = 0" "\<lfloor>5 / 2 :: real\<rfloor> = 2" by simp_all
  have a: "npx sf_a 20 \<lfloor>1 / 2 :: real\<rfloor> = Inr (PyFloat (Fin 1))"
    by (simp add: npx_def)
  have a2: "npx sf_a 20 \<lfloor>5 / 2 :: real\<rfloor> = Inr (PyFloat (Fin (1 / 4)))"
    unfolding f by (simp add: npx_def npx_in_table_def np_prod_def run_defs)
  from tpx_follows_the_formula[OF init_table_a m, of "1 / 2"] a
  have b: "tpx sf_a 20 (1 / 2) = Inr (tpx_claimed table_a (Fin 1) 20 (1 / 2))"
    by simp
  from tpx_follows_the_formula[OF init_table_a m, of "5 / 2"] a2
  have b2: "tpx sf_a 20 (5 / 2) = Inr (tpx_claimed table_a (Fin (1 / 4)) 20 (5 / 2))"
    by simp
  have c: "tpx_claimed table_a (Fin 1) 20 (1 / 2) = Fin (3 / 4)"
    by (simp add: tpx_claimed_def stored_qx_def fl_sub_def Let_def f64_overflow_id f64_range_id)
  from init_table_a m a a2 b b2 c show ?thesis by simp
qed

section \<open>Inputs on which the code departs from the specification\<close>

text \<open>
  C1. On the table with ages 20, 21, 22 the age 25 is not tabulated and \<open>25 + 1\<close> lies
  past the table: \<open>npx(25, 1)\<close> raises IndexError where the specification promises
  0.0. For the tabulated age 20 and \<open>n = 3\<close> the code returns \<open>px[0] ** 3 = 1/8\<close>: it
  extrapolates from the row of \<open>x\<close>, not from the last row of the table.
\<close>

theorem npx_extrapolation_raises_on_untabulated_age:
  "MortalityTable_init [20, 21, 22] [Fin (1 / 2), Fin (1 / 2), Fin (1 / 2)] ''A'' = Inr table_a
   \<and> SurvivalFunctions_init table_a (Fin (1 / 20)) = Inr sf_a
   \<and> npx sf_a 25 1 = Inl IndexError
   \<and> npx sf_a 20 3 = Inr (NpFloat (Fin (1 / 8)))"
  by (simp add: init_table_a init_sf_a npx_def npx_extrapolate_def run_defs power_divide)

text \<open>
  C2. On the same table \<open>life_expectancy(21)\<close> is \<open>0.5 + lx[2] = 4.5\<close>, while the
  specification's \<open>0.5 + lx[2] / lx[1]\<close> is 2.5: the code adds the entries of \<open>lx\<close>
  without dividing them by the entry of the age asked for.
\<close>

theorem life_expectancy_sums_undivided_lx:
  "MortalityTable_init [20, 21, 22] [Fin (1 / 2), Fin (1 / 2), Fin (1 / 2)] ''A'' = Inr table_a
   \<and> life_expectancy table_a 21 = Inr (Fin (9 / 2))
   \<and> life_expectancy_claimed table_a 1 = Fin (5 / 2)"
  by (simp add: init_table_a life_expectancy_def life_expectancy_claimed_def run_defs)

text \<open>
  C3. Every operation of SurvivalFunctions raises on some integer input. At the
  untabulated age 23, past the table, all seven raise IndexError; at the untabulated age
  19, below the table, the 0.0 that \<open>npx\<close> returns is divided by itself and
  \<open>assurance(19, 2)\<close> raises ZeroDivisionError.
\<close>

theorem survival_functions_raise:
  "MortalityTable_init [20, 21, 22] [Fin (1 / 2), Fin (1 / 2), Fin (1 / 2)] ''A'' = Inr table_a
   \<and> SurvivalFunctions_init table_a (Fin (1 / 20)) = Inr sf_a
   \<and> npx sf_a 23 1 = Inl IndexError
   \<and> nqx sf_a 23 1 = Inl IndexError
   \<and> tpx sf_a 23 1 = Inl IndexError
   \<and> annuity_due sf_a 23 (Some 2) = Inl IndexError
   \<and> annuity_immediate sf_a 23 (Some 2) = Inl IndexError
   \<and> assurance sf_a 23 (Some 1) = Inl IndexError
   \<and> net_single_premium sf_a 23 (Some 1) = Inl IndexError
   \<and> assurance sf_a 19 (Some 2) = Inl ZeroDivisionError"
proof -
  have n: "npx sf_a 23 1 = Inl IndexError"
    by (simp add: npx_def npx_extrapolate_def run_defs)
  have n0: "npx sf_a 19 1 = Inr (PyFloat (Fin 0))" "npx sf_a 19 2 = Inr (PyFloat (Fin 0))"
    by (simp_all add: npx_def npx_in_table_def run_defs)
  have q: "nqx sf_a 23 1 = Inl IndexError" using n by (simp add: nqx_def bind_def)
  have t1: "tpx sf_a 23 1 = Inl IndexError"
    using n by (simp add: tpx_def py_int_def bind_def)
  have ad: "annuity_due sf_a 23 (Some 2) = Inl IndexError"
    using t1 by (simp add: annuity_due_def upto.simps tpx_def bind_def)
  have ai: "annuity_immediate sf_a 23 (Some 2) = Inl IndexError"
    using ad by (simp add: annuity_immediate_def bind_def)
  have a: "assurance sf_a 23 (Some 1) = Inl IndexError"
    using n by (simp add: assurance_def upto.simps q_xt_def bind_def)
  have ns: "net_single_premium sf_a 23 (Some 1) = Inl IndexError"
    using a by (simp add: net_single_premium_def)
  have z: "assurance sf_a 19 (Some 2) = Inl ZeroDivisionError"
    using n0 by (simp add: assurance_def upto.simps q_xt_def bind_def)
  from init_table_a init_sf_a n q t1 ad ai a ns z show ?thesis by simp
qed

text \<open>
  C6. A table whose last \<open>qx\<close> is 1 passes validation; its products of \<open>px\<close> are all 0,
  the rescaling divides 0 by 0, and \<open>lx[0]\<close> is NaN, not 1. The same holds for every
  entry of \<open>lx\<close> and of \<open>dx\<close>.
\<close>

theorem lx_is_nan_when_a_qx_is_one:
  "MortalityTable_init [99, 100] [Fin (1 / 2), Fin 1] ''E'' = Inr table_end
   \<and> lx table_end ! 0 = NaN"
  by (simp add: MortalityTable_init_def calculate_survival_probabilities_def fl_sub_def
      np_cumprod_def run_defs)

section \<open>Survival inside the table\<close>

lemma foldl_mul_unit:
  fixes qs :: "real list"
  shows "\<forall>p\<in>set qs. 0 \<le> p \<and> p \<le> 1 \<Longrightarrow> 0 \<le> a \<Longrightarrow> a \<le> 1 \<Longrightarrow>
     \<exists>b. foldl fl_mul (Fin a) (map Fin qs) = Fin b \<and> 0 \<le> b \<and> b \<le> a"
proof (induction qs arbitrary: a)
  case Nil
  then show ?case by simp
next
  case (Cons q qs)
  have q: "0 \<le> q" "q \<le> 1" using Cons.prems(1) by simp_all
  have "0 \<le> a * q" "a * q \<le> 1" using q Cons.prems(2,3) by (simp_all add: mult_le_one)
  from f64_range_unit[OF this] obtain d
    where d: "f64_range (a * q) = Fin d" "0 \<le> d" "d \<le> a * q" by blast
  have da: "d \<le> a" using d(3) q Cons.prems(2) by (meson mult_left_le order_trans)
  then have d1: "d \<le> 1" using Cons.prems(3) by simp
  from Cons.IH[OF _ d(2) d1] Cons.prems(1) obtain b
    where b: "foldl fl_mul (Fin d) (map Fin qs) = Fin b" "0 \<le> b" "b \<le> d" by auto
  show ?case using b d(1) da by (intro exI[of _ b]) simp
qed

lemma np_prod_unit:
  fixes qs :: "real list"
  assumes "\<forall>p\<in>set qs. 0 \<le> p \<and> p \<le> 1"
  shows "\<exists>b. np_prod (map Fin qs) = Fin b \<and> 0 \<le> b \<and> b \<le> 1"
  using foldl_mul_unit[OF assms, of 1] by (simp add: np_prod_def)

lemma np_prod_append_le:
  fixes qs :: "real list"
  assumes "\<forall>p\<in>set qs. 0 \<le> p \<and> p \<le> 1" and "\<forall>p\<in>set rs. 0 \<le> p \<and> p \<le> 1"
  shows "\<exists>a b. np_prod (map Fin qs) = Fin a \<and> np_prod (map Fin (qs @ rs)) = Fin b
            \<and> 0 \<le> b \<and> b \<le> a \<and> a \<le> 1"
proof -
  from np_prod_unit[OF assms(1)] obtain a
    where a: "np_prod (map Fin qs) = Fin a" "0 \<le> a" "a \<le> 1" by blast
  from foldl_mul_unit[OF assms(2) a(2,3)] obtain b
    where b: "foldl fl_mul (Fin a) (map Fin rs) = Fin b" "0 \<le> b" "b \<le> a" by blast
  have "np_prod (map Fin (qs @ rs)) = Fin b"
    using a(1) b(1) by (simp add: np_prod_def)
  with a b show ?thesis by blast
qed

lemma slice_unit:
  fixes ps :: "real list"
  assumes "\<forall>p\<in>set ps. 0 \<le> p \<and> p \<le> 1"
  shows "\<forall>p\<in>set (take j (drop i ps)). 0 \<le> p \<and> p \<le> 1"
  using assms by (auto dest: in_set_takeD in_set_dropD)

lemma np_where_empty_iff: "np_where (\<lambda>b. b = a) as = [] \<longleftrightarrow> a \<notin> set as"
  by (auto simp: np_where_def filter_empty_conv in_set_conv_nth)

lemma hd_np_where:
  assumes "distinct as" and "k < length as" and "as ! k = a"
  shows "hd (np_where (\<lambda>b. b = a) as) = k"
proof -
  have "a \<in> set as" using assms(2,3) by (metis nth_mem)
  from first_match[OF this, of as] obtain k'
    where k': "first_item (np_where (\<lambda>b. b = a) as) = Inr k'" "k' < length as" "as ! k' = a"
    by auto
  have "as ! k' = as ! k" using assms(3) k'(3) by simp
  then have "k' = k" using assms(1,2) k'(2) by (simp add: nth_eq_iff_index_eq)
  with k'(1) show ?thesis by (auto simp: first_item_def split: list.splits)
qed

lemma npx_in_table_absent:
  "x \<notin> set (ages tbl) \<or> x + n \<notin> set (ages tbl) \<Longrightarrow>
     npx_in_table tbl x n = Inr (PyFloat (Fin 0))"
  by (auto simp: npx_in_table_def Let_def np_where_empty_iff)

lemma npx_in_table_present:
  assumes "px tbl = map Fin ps" and "distinct (ages tbl)"
    and "k0 < length (ages tbl)" and "ages tbl ! k0 = x"
    and "k1 < length (ages tbl)" and "ages tbl ! k1 = x + n"
  shows "npx_in_table tbl x n = Inr (PyFloat (np_prod (map Fin (take (k1 - k0) (drop k0 ps)))))"
proof -
  have x: "x \<in> set (ages tbl)" "x + n \<in> set (ages tbl)"
    using assms(3-6) by (metis nth_mem)+
  have h: "hd (np_where (\<lambda>b. b = x) (ages tbl)) = k0"
    "hd (np_where (\<lambda>b. b = x + n) (ages tbl)) = k1"
    using hd_np_where[OF assms(2)] assms(3-6) by simp_all
  have "take (k1 - k0) (drop k0 (map Fin ps)) = map Fin (take (k1 - k0) (drop k0 ps))"
    by (simp add: take_map drop_map)
  then show ?thesis using x h assms(1)
    by (simp add: npx_in_table_def Let_def np_where_empty_iff)
qed

lemma npx_in_table_unit:
  assumes "MortalityTable_init as qs nm = Inr tbl"
  shows "\<exists>b. npx_in_table tbl x n = Inr (PyFloat (Fin b)) \<and> 0 \<le> b \<and> b \<le> 1"
proof -
  obtain ps where ps: "px tbl = map Fin ps" "\<forall>p\<in>set ps. 0 \<le> p \<and> p \<le> 1"
    by (rule init_px_reals[OF assms])
  show ?thesis
  proof (cases "x \<notin> set (ages tbl) \<or> x + n \<notin> set (ages tbl)")
    case True
    then show ?thesis using npx_in_table_absent[OF True] by simp
  next
    case False
    let ?i = "hd (np_where (\<lambda>b. b = x) (ages tbl))"
    let ?j = "hd (np_where (\<lambda>b. b = x + n) (ages tbl))"
    have "take (?j - ?i) (drop ?i (map Fin ps)) = map Fin (take (?j - ?i) (drop ?i ps))"
      by (simp add: take_map drop_map)
    then have "npx_in_table tbl x n =
        Inr (PyFloat (np_prod (map Fin (take (?j - ?i) (drop ?i ps)))))"
      using False ps(1) by (simp add: npx_in_table_def Let_def np_where_empty_iff)
    then show ?thesis using np_prod_unit[OF slice_unit[OF ps(2), of "?j - ?i" ?i]] by auto
  qed
qed

lemma strict_sorted_index_le:
  assumes "sorted_wrt (<) (as :: int list)" and "i < length as" and "j < length as"
    and "as ! i \<le> as ! j"
  shows "i \<le> j"
proof (rule ccontr)
  assume "\<not> i \<le> j"
  then have "j < i" by simp
  then have "as ! j < as ! i" using assms(1,2) by (simp add: sorted_wrt_nth_less)
  with assms(4) show False by simp
qed

lemma strict_sorted_distinct: "sorted_wrt (<) (as :: int list) \<Longrightarrow> distinct as"
  by (simp add: strict_sorted_iff)

lemma in_table_mono:
  assumes "MortalityTable_init as qs nm = Inr tbl" and "sorted_wrt (<) as"
    and "0 < n" and "n \<le> m" and "x + n \<in> set as"
  shows "\<exists>a b. npx_in_table tbl x n = Inr (PyFloat (Fin a))
            \<and> npx_in_table tbl x m = Inr (PyFloat (Fin b)) \<and> 0 \<le> b \<and> b \<le> a \<and> a \<le> 1"
proof -
  have ag: "ages tbl = as" using init_lengths(1)[OF assms(1)] .
  obtain ps where ps: "px tbl = map Fin ps"
    "length ps = length as" "\<forall>p\<in>set ps. 0 \<le> p \<and> p \<le> 1"
    by (rule init_px_reals[OF assms(1)])
  have d: "distinct (ages tbl)" using strict_sorted_distinct[OF assms(2)] ag by simp
  show ?thesis
  proof (cases "x \<in> set as")
    case False
    then have "npx_in_table tbl x n = Inr (PyFloat (Fin 0))"
      "npx_in_table tbl x m = Inr (PyFloat (Fin 0))"
      using npx_in_table_absent[of x tbl] ag by simp_all
    then show ?thesis by simp
  next
    case True
    then obtain k0 where k0: "k0 < length as" "as ! k0 = x" by (auto simp: in_set_conv_nth)
    from assms(5) obtain k1 where k1: "k1 < length as" "as ! k1 = x + n"
      by (auto simp: in_set_conv_nth)
    have a: "npx_in_table tbl x n =
        Inr (PyFloat (np_prod (map Fin (take (k1 - k0) (drop k0 ps)))))"
      using npx_in_table_present[OF ps(1) d, of k0 x k1 n] k0 k1 ag by simp
    show ?thesis
    proof (cases "x + m \<in> set as")
      case False
      then have "npx_in_table tbl x m = Inr (PyFloat (Fin 0))"
        using npx_in_table_absent[of x tbl m] ag by simp
      with a np_prod_unit[OF slice_unit[OF ps(3), of "k1 - k0" k0]] show ?thesis by auto
    next
      case True
      then obtain k2 where k2: "k2 < length as" "as ! k2 = x + m"
        by (auto simp: in_set_conv_nth)
      have b: "npx_in_table tbl x m =
          Inr (PyFloat (np_prod (map Fin (take (k2 - k0) (drop k0 ps)))))"
        using npx_in_table_present[OF ps(1) d, of k0 x k2 m] k0 k2 ag by simp
      have le01: "k0 \<le> k1"
        using strict_sorted_index_le[OF assms(2) k0(1) k1(1)] k0(2) k1(2) assms(3) by simp
      have le12: "k1 \<le> k2"
        using strict_sorted_index_le[OF assms(2) k1(1) k2(1)] k1(2) k2(2) assms(4) by simp
      have "k2 - k0 = (k1 - k0) + (k2 - k1)" using le01 le12 by simp
      then have split: "take (k2 - k0) (drop k0 ps)
          = take (k1 - k0) (drop k0 ps) @ take (k2 - k1) (drop (k1 - k0) (drop k0 ps))"
        by (simp add: take_add)
      have u2: "\<forall>p\<in>set (take (k2 - k1) (drop (k1 - k0) (drop k0 ps))). 0 \<le> p \<and> p \<le> 1"
        using ps(3) by (auto dest: in_set_takeD in_set_dropD)
      from np_prod_append_le[OF slice_unit[OF ps(3), of "k1 - k0" k0] u2]
      show ?thesis using a b unfolding split[symmetric] by auto
    qed
  qed
qed

lemma npx_in_range:
  assumes "MortalityTable_init as qs nm = Inr tbl" and "mt sf = tbl"
    and "0 < n" and "x + n \<le> last as"
  shows "npx sf x n = npx_in_table tbl x n"
  using last_item_ages[OF assms(1)] init_lengths(1)[OF assms(1)] assms(2-4)
  by (simp add: npx_def bind_def)

text \<open>
  C4 (as stated, refuted). In the table with ages 20 and 22 the one-year survival from
  age 20 is 0.0, because age 21 is not tabulated, and the two-year survival is 0.9.
\<close>

theorem npx_monotone_counterexample:
  "MortalityTable_init [20, 22] [Fin (1 / 10), Fin (1 / 5)] ''G'' = Inr table_gap
   \<and> SurvivalFunctions_init table_gap (Fin 0) = Inr sf_gap
   \<and> npx sf_gap 20 1 = Inr (PyFloat (Fin 0))
   \<and> npx sf_gap 20 2 = Inr (PyFloat (Fin (9 / 10)))
   \<and> \<not> fl_le (Fin (9 / 10)) (Fin 0)"
  by (simp add: init_table_gap SurvivalFunctions_init_def npx_def npx_in_table_def
      np_prod_def run_defs)

text \<open>
  C4 (amended). On a constructed table with strictly increasing ages, for
  \<open>0 \<le> n \<le> m\<close> with \<open>x + m\<close> not past the last age and \<open>x + n\<close> a tabulated age
  (or \<open>n = 0\<close>), both calls return and \<open>npx(x, m) \<le> npx(x, n)\<close>.
\<close>

theorem npx_nonincreasing_in_table:
  assumes "MortalityTable_init as qs nm = Inr tbl" and "sorted_wrt (<) as"
    and "mt sf = tbl" and "0 \<le> n" and "n \<le> m" and "x + m \<le> last as"
    and "n = 0 \<or> x + n \<in> set as"
  shows "\<exists>a b. npx sf x n = Inr a \<and> npx sf x m = Inr b \<and> fl_le (val b) (val a)"
proof (cases "n = 0")
  case True
  show ?thesis
  proof (cases "m = 0")
    case True
    with \<open>n = 0\<close> show ?thesis by (simp add: npx_def)
  next
    case False
    with assms(4,5) have m: "0 < m" by simp
    from npx_in_table_unit[OF assms(1), of x m] obtain b
      where "npx_in_table tbl x m = Inr (PyFloat (Fin b))" "b \<le> 1" by blast
    then have "npx sf x m = Inr (PyFloat (Fin b))"
      using npx_in_range[OF assms(1,3) m assms(6)] by simp
    moreover have "npx sf x n = Inr (PyFloat (Fin 1))" using True by (simp add: npx_def)
    ultimately show ?thesis using \<open>b \<le> 1\<close> by simp
  qed
next
  case False
  with assms(4,7) have n: "0 < n" "x + n \<in> set as" by simp_all
  have m: "0 < m" using n(1) assms(5) by simp
  have nl: "x + n \<le> last as" using assms(5,6) by simp
  from in_table_mono[OF assms(1,2) n(1) assms(5) n(2)] obtain a b
    where ab: "npx_in_table tbl x n = Inr (PyFloat (Fin a))"
      "npx_in_table tbl x m = Inr (PyFloat (Fin b))" "b \<le> a" by blast
  have "npx sf x n = Inr (PyFloat (Fin a))" "npx sf x m = Inr (PyFloat (Fin b))"
    using npx_in_range[OF assms(1,3) n(1) nl] npx_in_range[OF assms(1,3) m assms(6)] ab
    by simp_all
  then show ?thesis using ab(3) by simp
qed

theorem npx_nonincreasing_in_table_witness:
  "MortalityTable_init [20, 21, 22] [Fin (1 / 2), Fin (1 / 2), Fin (1 / 2)] ''A'' = Inr table_a
   \<and> sorted_wrt (<) [20, 21, 22 :: int] \<and> mt sf_a = table_a
   \<and> (0::int) \<le> 1 \<and> (1::int) \<le> 2 \<and> 20 + 2 \<le> last [20, 21, 22 :: int]
   \<and> 20 + 1 \<in> set [20, 21, 22 :: int]
   \<and> npx sf_a 20 1 = Inr (PyFloat (Fin (1 / 2)))
   \<and> npx sf_a 20 2 = Inr (PyFloat (Fin (1 / 4)))
   \<and> fl_le (val (PyFloat (Fin (1 / 4)))) (val (PyFloat (Fin (1 / 2))))"
proof -
  have s: "sorted_wrt (<) [20, 21, 22 :: int]" "mt sf_a = table_a"
    "(0::int) \<le> 1" "(1::int) \<le> 2" "20 + 2 \<le> last [20, 21, 22 :: int]"
    "(1::int) = 0 \<or> 20 + 1 \<in> set [20, 21, 22 :: int]"
    by simp_all
  have v: "npx sf_a 20 1 = Inr (PyFloat (Fin (1 / 2)))"
    "npx sf_a 20 2 = Inr (PyFloat (Fin (1 / 4)))"
    by (simp_all add: npx_def npx_in_table_def np_prod_def run_defs)
  from npx_nonincreasing_in_table[OF init_table_a s] v init_table_a s
  show ?thesis by simp
qed

section \<open>Assurances\<close>
















section \<open>Life expectancy at the edges\<close>

lemma life_expectancy_absent:
  "age \<notin> set (ages tbl) \<Longrightarrow> life_expectancy tbl age = Inl ValueError"
  by (simp add: life_expectancy_def)

lemma life_expectancy_last_row:
  assumes "MortalityTable_init as qs nm = Inr tbl" and "distinct as"
  shows "life_expectancy tbl (last as) = Inr (Fin 0)"
proof -
  have ag: "ages tbl = as" and ne: "as \<noteq> []" and ll: "length (lx tbl) = length as"
    using init_lengths[OF assms(1)] by simp_all
  have k: "length as - 1 < length as" "as ! (length as - 1) = last as"
    using ne by (simp_all add: last_conv_nth)
  have mem: "last as \<in> set as" using ne by simp
  from first_match[OF mem, of as] obtain k'
    where k': "first_item (np_where (\<lambda>b. b = last as) as) = Inr k'" "k' < length as"
      "as ! k' = last as" by auto
  have "as ! k' = as ! (length as - 1)" using k'(3) k(2) by simp
  then have "k' = length as - 1" using assms(2) k'(2) k(1) by (simp add: nth_eq_iff_index_eq)
  then have "length (drop k' (lx tbl)) \<le> 1" using ll by simp
  then show ?thesis using k'(1) mem ag
    by (simp add: life_expectancy_def bind_def Let_def del: length_drop)
qed

end
